theory Spec2Isabelle
  imports Main
begin

section \<open>The multi-sig session manager (multi-sig-session.ts)\<close>

text \<open>
  The session manager keeps one \<open>MultiSigSession\<close> under the single key
  \<open>SESSION_KEY\<close> of the browser's \<open>sessionStorage\<close>. Every function reads the clock
  with \<open>Date.now()\<close>; in the embedding the clock value is the first argument \<open>now\<close> of
  each operation (milliseconds, an integer). A function that throws may already have changed
  the store (reading an expired session removes it), so every operation returns its result
  together with the world it leaves behind.
\<close>

subsection \<open>Data\<close>

datatype status = Pending | Ready | Submitted

record MultiSigSession =
  sessionId :: string
  unsignedTx :: string
  partialTx :: string
  collectedSigners :: "string list"
  threshold :: int
  status :: status
  createdAt :: int
  expiresAt :: int
  txHash :: "string option"

definition SESSION_TTL_MS :: int where
  "SESSION_TTL_MS = 10 * 60 * 1000"

text \<open>
  The world of the module: whether \<open>window\<close> is defined (\<open>isBrowser()\<close>), the value stored
  under \<open>SESSION_KEY\<close> (\<open>None\<close> when the key is absent; the module is the only writer of
  the key, and \<open>JSON.parse\<close> of what \<open>JSON.stringify\<close> wrote gives the session back), and
  the due times of the \<open>clearSession\<close> callbacks scheduled with \<open>setTimeout\<close>.
\<close>

record world =
  isBrowser :: bool
  sessionStorage :: "MultiSigSession option"
  timeouts :: "int list"

text \<open>
  The object that \<open>exportSessionPayload\<close> serialises and \<open>importSessionPayload\<close> reads as
  \<open>data\<close>. The string \<open>btoa(JSON.stringify(data))\<close> is represented by \<open>Encoded data\<close>; a
  string on which \<open>atob\<close> or \<open>JSON.parse\<close> throws is \<open>Malformed\<close>. A string that decodes
  is taken to carry the five fields that the export writes, and no other.
\<close>

record payload =
  data_sessionId :: string
  data_partialTx :: string
  data_collectedSigners :: "string list"
  data_threshold :: int
  data_expiresAt :: int

datatype shared = Encoded payload | Malformed

text \<open>
  The errors, one constructor for each message thrown:
  \<^item> \<open>NoActiveSession\<close>: "No active session or session expired." (\<open>applySignature\<close>);
  \<^item> \<open>SessionIsAlready st\<close>: "Session is already "st".";
  \<^item> \<open>AlreadySigned\<close>: "This wallet has already signed this session.";
  \<^item> \<open>ImportFailed ImportedExpired\<close>: "Failed to import session: Imported session has
    already expired."; \<open>ImportFailed Undecodable\<close>: the same prefix with the decoder's message;
  \<^item> \<open>SessionAlreadyActive\<close>: "A multisig session is already active. Clear it before
    starting a new one." (\<open>initiateUnlock\<close>);
  \<^item> \<open>NoActiveSessionFound\<close>: "No active session found or session has expired."
    (\<open>coSign\<close>, \<open>submitUnlock\<close>);
  \<^item> \<open>NotEnoughSignatures n t\<close>: "Not enough signatures: n/t. ..." (\<open>submitUnlock\<close>);
  \<^item> \<open>Collaborator msg\<close>: an exception of the wallet or of the transaction builder.
\<close>

datatype import_reason = ImportedExpired | Undecodable

datatype error =
    NoActiveSession
  | SessionIsAlready status
  | AlreadySigned
  | ImportFailed import_reason
  | SessionAlreadyActive
  | NoActiveSessionFound
  | NotEnoughSignatures nat int
  | Collaborator string

subsection \<open>TTL and storage helpers\<close>

definition isExpired :: "int \<Rightarrow> MultiSigSession \<Rightarrow> bool" where
  "isExpired now session = (now > expiresAt session)"

definition getRemainingMs :: "int \<Rightarrow> MultiSigSession \<Rightarrow> int" where
  "getRemainingMs now session = max 0 (expiresAt session - now)"

definition clearSession :: "world \<Rightarrow> world" where
  "clearSession w = (if \<not> isBrowser w then w else w\<lparr>sessionStorage := None\<rparr>)"

definition writeSession :: "MultiSigSession \<Rightarrow> world \<Rightarrow> world" where
  "writeSession session w =
     (if \<not> isBrowser w then w else w\<lparr>sessionStorage := Some session\<rparr>)"

definition readSession :: "int \<Rightarrow> world \<Rightarrow> MultiSigSession option \<times> world" where
  "readSession now w =
     (if \<not> isBrowser w then (None, w)
      else case sessionStorage w of
             None \<Rightarrow> (None, w)
           | Some session \<Rightarrow>
               if isExpired now session then (None, clearSession w)
               else (Some session, w))"

subsection \<open>Public API of the session manager\<close>

definition hasActiveSession :: "int \<Rightarrow> world \<Rightarrow> bool \<times> world" where
  "hasActiveSession now w =
     (case readSession now w of (r, w') \<Rightarrow> (r \<noteq> None, w'))"

text \<open>
  \<open>createSession\<close>: \<open>uuid\<close> is the value of \<open>crypto.randomUUID()\<close>; the four fields of
  \<open>params\<close> are the next four arguments.
\<close>

definition createSession ::
  "int \<Rightarrow> string \<Rightarrow> string \<Rightarrow> string \<Rightarrow> int \<Rightarrow> string \<Rightarrow> world
     \<Rightarrow> MultiSigSession \<times> world" where
  "createSession now uuid p_unsignedTx p_partialTx p_threshold p_initiatorPkh w =
     (let session = \<lparr> sessionId = uuid,
                       unsignedTx = p_unsignedTx,
                       partialTx = p_partialTx,
                       collectedSigners = [p_initiatorPkh],
                       threshold = p_threshold,
                       status = Pending,
                       createdAt = now,
                       expiresAt = now + SESSION_TTL_MS,
                       txHash = None \<rparr>
      in (session, writeSession session w))"

definition getSession :: "int \<Rightarrow> world \<Rightarrow> MultiSigSession option \<times> world" where
  "getSession now w = readSession now w"

definition applySignature ::
  "int \<Rightarrow> string \<Rightarrow> string \<Rightarrow> world \<Rightarrow> (error + MultiSigSession) \<times> world" where
  "applySignature now signerPkh newPartialTx w =
     (case readSession now w of
        (None, w') \<Rightarrow> (Inl NoActiveSession, w')
      | (Some session, w') \<Rightarrow>
          if status session \<noteq> Pending then (Inl (SessionIsAlready (status session)), w')
          else if signerPkh \<in> set (collectedSigners session) then (Inl AlreadySigned, w')
          else
            let updatedCollected = collectedSigners session @ [signerPkh];
                thresholdMet = (int (length updatedCollected) \<ge> threshold session);
                updated = session\<lparr> partialTx := newPartialTx,
                                   collectedSigners := updatedCollected,
                                   status := (if thresholdMet then Ready else Pending) \<rparr>
            in (Inr updated, writeSession updated w'))"

text \<open>
  \<open>markSubmitted\<close> returns \<open>void\<close>; it has no \<open>throw\<close>. The callback of
  \<open>setTimeout(clearSession, 3000)\<close> is recorded with its due time; when it fires, it is a
  call of \<open>clearSession\<close>.
\<close>

definition markSubmitted :: "int \<Rightarrow> string \<Rightarrow> world \<Rightarrow> (error + unit) \<times> world" where
  "markSubmitted now p_txHash w =
     (case readSession now w of
        (None, w') \<Rightarrow> (Inr (), w')
      | (Some session, w') \<Rightarrow>
          (let w'' = writeSession (session\<lparr> status := Submitted, txHash := Some p_txHash \<rparr>) w'
           in (Inr (), w''\<lparr> timeouts := timeouts w'' @ [now + 3000] \<rparr>)))"

definition exportSessionPayload :: "int \<Rightarrow> world \<Rightarrow> shared option \<times> world" where
  "exportSessionPayload now w =
     (case readSession now w of
        (None, w') \<Rightarrow> (None, w')
      | (Some session, w') \<Rightarrow>
          (Some (Encoded \<lparr> data_sessionId = sessionId session,
                           data_partialTx = partialTx session,
                           data_collectedSigners = collectedSigners session,
                           data_threshold = threshold session,
                           data_expiresAt = expiresAt session \<rparr>), w'))"

definition importSessionPayload ::
  "int \<Rightarrow> shared \<Rightarrow> world \<Rightarrow> (error + MultiSigSession) \<times> world" where
  "importSessionPayload now p w =
     (case p of
        Malformed \<Rightarrow> (Inl (ImportFailed Undecodable), w)
      | Encoded d \<Rightarrow>
          if now > data_expiresAt d then (Inl (ImportFailed ImportedExpired), w)
          else
            let session = \<lparr> sessionId = data_sessionId d,
                             unsignedTx = data_partialTx d,
                             partialTx = data_partialTx d,
                             collectedSigners = data_collectedSigners d,
                             threshold = data_threshold d,
                             status = Pending,
                             createdAt = now,
                             expiresAt = data_expiresAt d,
                             txHash = None \<rparr>
            in (case readSession now w of
                  (Some existing, w') \<Rightarrow>
                    if sessionId existing = data_sessionId d then (Inr existing, w')
                    else (Inr session, writeSession session w')
                | (None, w') \<Rightarrow> (Inr session, writeSession session w')))"

section \<open>The unlock flow (multi-sig-unlock.ts)\<close>

text \<open>
  The three steps are \<open>async\<close>: between the first read of the session (at \<open>now\<close>) and the
  write at the end (at \<open>now'\<close>) they await the wallet and the transaction builder. What
  those collaborators return, or the exception they throw, is an argument:
  \<^item> \<open>prepared\<close> for \<open>initiateUnlock\<close>: the initiator's key hash, the unsigned transaction
    and the threshold from \<open>buildUnlockTransaction\<close>, and the partially signed transaction
    from \<open>wallet.signTx\<close>;
  \<^item> \<open>signTx\<close> for \<open>coSign\<close>: \<open>wallet.signTx(tx, true)\<close>;
  \<^item> \<open>submitTx\<close> for \<open>submitUnlock\<close>: \<open>wallet.submitTx(tx)\<close>.
\<close>

definition initiateUnlock ::
  "int \<Rightarrow> int \<Rightarrow> string \<Rightarrow> (error + string \<times> string \<times> int \<times> string) \<Rightarrow> world
     \<Rightarrow> (error + MultiSigSession) \<times> world" where
  "initiateUnlock now now' uuid prepared w =
     (case hasActiveSession now w of
        (True, w') \<Rightarrow> (Inl SessionAlreadyActive, w')
      | (False, w') \<Rightarrow>
          (case prepared of
             Inl e \<Rightarrow> (Inl e, w')
           | Inr (initiatorPkh, p_unsignedTx, p_threshold, p_partialTx) \<Rightarrow>
               (case createSession now' uuid p_unsignedTx p_partialTx p_threshold initiatorPkh w'
                of (session, w'') \<Rightarrow> (Inr session, w''))))"

definition coSign ::
  "int \<Rightarrow> int \<Rightarrow> string \<Rightarrow> (string \<Rightarrow> error + string) \<Rightarrow> world
     \<Rightarrow> (error + MultiSigSession) \<times> world" where
  "coSign now now' walletPkh signTx w =
     (case getSession now w of
        (None, w') \<Rightarrow> (Inl NoActiveSessionFound, w')
      | (Some session, w') \<Rightarrow>
          if walletPkh \<in> set (collectedSigners session) then (Inl AlreadySigned, w')
          else if status session \<noteq> Pending
          then (Inl (SessionIsAlready (status session)), w')
          else
            (case signTx (partialTx session) of
               Inl e \<Rightarrow> (Inl e, w')
             | Inr newPartialTx \<Rightarrow> applySignature now' walletPkh newPartialTx w'))"

definition submitUnlock ::
  "int \<Rightarrow> int \<Rightarrow> (string \<Rightarrow> error + string) \<Rightarrow> world \<Rightarrow> (error + string) \<times> world" where
  "submitUnlock now now' submitTx w =
     (case getSession now w of
        (None, w') \<Rightarrow> (Inl NoActiveSessionFound, w')
      | (Some session, w') \<Rightarrow>
          if status session \<noteq> Ready
          then (Inl (NotEnoughSignatures (length (collectedSigners session))
                                         (threshold session)), w')
          else
            (case submitTx (partialTx session) of
               Inl e \<Rightarrow> (Inl e, w')
             | Inr p_txHash \<Rightarrow>
                 (case markSubmitted now' p_txHash w' of (_, w'') \<Rightarrow> (Inr p_txHash, w''))))"

section \<open>The invariant of the specification, and a running scenario\<close>

text \<open>
  Following the specification's words (invariant 2): while a session is not yet submitted,
  its status is \<open>ready\<close> exactly when the number of collected signers has reached the
  threshold.
\<close>

definition spec_ready_iff_threshold :: "MultiSigSession \<Rightarrow> bool" where
  "spec_ready_iff_threshold s =
     (status s = Submitted \<or>
      ((status s = Ready) = (threshold s \<le> int (length (collectedSigners s)))))"

text \<open>
  The scenario: a fresh browser tab; the session that initiator \<open>A\<close> creates at time 0 for
  a 2-of-3 wallet whose signing owners are \<open>A\<close>, \<open>B\<close>, \<open>C\<close>; the tab holding it; the same
  session after \<open>B\<close> has signed too.
\<close>

definition tab0 :: world where
  "tab0 = \<lparr> isBrowser = True, sessionStorage = None, timeouts = [] \<rparr>"

definition sessA :: MultiSigSession where
  "sessA = \<lparr> sessionId = ''s1'', unsignedTx = ''tx'', partialTx = ''tx+A'',
             collectedSigners = [''A''], threshold = 2, status = Pending,
             createdAt = 0, expiresAt = 600000, txHash = None \<rparr>"

definition tabA :: world where
  "tabA = \<lparr> isBrowser = True, sessionStorage = Some sessA, timeouts = [] \<rparr>"

definition sessAB :: MultiSigSession where
  "sessAB = \<lparr> sessionId = ''s1'', unsignedTx = ''tx'', partialTx = ''tx+A+B'',
              collectedSigners = [''A'', ''B''], threshold = 2, status = Ready,
              createdAt = 0, expiresAt = 600000, txHash = None \<rparr>"

definition tabAB :: world where
  "tabAB = \<lparr> isBrowser = True, sessionStorage = Some sessAB, timeouts = [] \<rparr>"

definition sessAD :: MultiSigSession where
  "sessAD = \<lparr> sessionId = ''s1'', unsignedTx = ''tx'', partialTx = ''tx+A+D'',
              collectedSigners = [''A'', ''D''], threshold = 2, status = Ready,
              createdAt = 0, expiresAt = 600000, txHash = None \<rparr>"

text \<open>The tab after \<open>markSubmitted\<close> at time 1000 on \<open>tabAB\<close>, with hash \<open>h\<close>.\<close>

definition tabS :: world where
  "tabS = \<lparr> isBrowser = True,
            sessionStorage = Some (sessAB\<lparr> status := Submitted, txHash := Some ''h'' \<rparr>),
            timeouts = [4000] \<rparr>"

text \<open>What \<open>exportSessionPayload\<close> encodes on \<open>tabAB\<close>.\<close>

definition payloadAB :: payload where
  "payloadAB = \<lparr> data_sessionId = ''s1'', data_partialTx = ''tx+A+B'',
                 data_collectedSigners = [''A'', ''B''], data_threshold = 2,
                 data_expiresAt = 600000 \<rparr>"

text \<open>The session that importing \<open>payloadAB\<close> at time 2000 creates on a fresh tab.\<close>

definition sessImp :: MultiSigSession where
  "sessImp = \<lparr> sessionId = ''s1'', unsignedTx = ''tx+A+B'', partialTx = ''tx+A+B'',
               collectedSigners = [''A'', ''B''], threshold = 2, status = Pending,
               createdAt = 2000, expiresAt = 600000, txHash = None \<rparr>"

section \<open>Reading the store\<close>

lemma readSession_live:
  "isBrowser w \<Longrightarrow> sessionStorage w = Some s \<Longrightarrow> now \<le> expiresAt s
     \<Longrightarrow> readSession now w = (Some s, w)"
  by (simp add: readSession_def isExpired_def)

lemma readSession_expired:
  "isBrowser w \<Longrightarrow> sessionStorage w = Some s \<Longrightarrow> expiresAt s < now
     \<Longrightarrow> readSession now w = (None, w\<lparr>sessionStorage := None\<rparr>)"
  by (simp add: readSession_def isExpired_def clearSession_def)

lemma readSession_Some:
  "readSession now w = (Some s, w')
     \<Longrightarrow> w' = w \<and> isBrowser w \<and> sessionStorage w = Some s \<and> now \<le> expiresAt s"
  by (auto simp: readSession_def isExpired_def split: if_splits option.splits)

lemma readSession_None_again:
  "readSession now w = (None, w') \<Longrightarrow> readSession now2 w' = (None, w')"
  by (auto simp: readSession_def isExpired_def clearSession_def split: if_splits option.splits)

lemma scenario_create:
  "createSession 0 ''s1'' ''tx'' ''tx+A'' 2 ''A'' tab0 = (sessA, tabA)"
  by (simp add: createSession_def writeSession_def tab0_def sessA_def tabA_def
      SESSION_TTL_MS_def Let_def)

lemma scenario_cosign:
  "applySignature 1000 ''B'' ''tx+A+B'' tabA = (Inr sessAB, tabAB)"
  by (simp add: applySignature_def readSession_def isExpired_def writeSession_def
      tabA_def sessA_def sessAB_def tabAB_def Let_def)

lemma scenario_export:
  "exportSessionPayload 1500 tabAB = (Some (Encoded payloadAB), tabAB)"
  by (simp add: exportSessionPayload_def readSession_def isExpired_def tabAB_def sessAB_def
      payloadAB_def)

lemma scenario_submitted:
  "markSubmitted 1000 ''h'' tabAB = (Inr (), tabS)"
  by (simp add: markSubmitted_def readSession_def isExpired_def writeSession_def tabAB_def
      sessAB_def tabS_def Let_def)

section \<open>Claims\<close>

text \<open>
  C7. For every live pending session and every signer already listed in
  \<open>collectedSigners\<close>, \<open>applySignature\<close> fails with the already-signed error and changes
  nothing: the world after the call (the stored session with every field, and the scheduled
  callbacks) is the world before it.
\<close>

theorem applySignature_already_signed:
  assumes "isBrowser w" and "sessionStorage w = Some s" and "now \<le> expiresAt s"
    and "status s = Pending" and "signerPkh \<in> set (collectedSigners s)"
  shows "applySignature now signerPkh newPartialTx w = (Inl AlreadySigned, w)"
  using assms by (simp add: applySignature_def readSession_live)

theorem applySignature_already_signed_witness:
  "isBrowser tabA \<and> sessionStorage tabA = Some sessA \<and> 1000 \<le> expiresAt sessA
     \<and> status sessA = Pending \<and> ''A'' \<in> set (collectedSigners sessA)
     \<and> applySignature 1000 ''A'' ''tx+A+A'' tabA = (Inl AlreadySigned, tabA)"
  using applySignature_already_signed [of tabA sessA 1000 "''A''" "''tx+A+A''"]
  by (simp add: tabA_def sessA_def)

text \<open>
  C1 (as stated, refuted). The claim wants \<open>applySignature\<close> to reject a signer outside the
  required set. The session stores no required set and \<open>applySignature\<close> checks none: in
  the scenario, whose signing owners are \<open>A\<close>, \<open>B\<close>, \<open>C\<close>, the signature of \<open>D\<close> is
  accepted, \<open>D\<close> is appended to \<open>collectedSigners\<close> and the count reaches the threshold.
\<close>

theorem applySignature_accepts_unlisted_signer:
  "''D'' \<notin> set [''A'', ''B'', ''C''] \<and>
   applySignature 1000 ''D'' ''tx+A+D'' tabA = (Inr sessAD, tabA\<lparr>sessionStorage := Some sessAD\<rparr>)
   \<and> status sessAD = Ready \<and> ''D'' \<in> set (collectedSigners sessAD)"
  by (simp add: applySignature_def readSession_def isExpired_def writeSession_def
      tabA_def sessA_def sessAD_def Let_def)

text \<open>
  C1 (amended). \<open>applySignature\<close> makes no membership check against any required-signer
  set: for every live pending session and every signer not yet in \<open>collectedSigners\<close>, it
  succeeds, stores the new partial transaction, appends the signer, and sets the status to
  \<open>ready\<close> exactly when the new count has reached the threshold (\<open>pending\<close> otherwise).
  \<open>coSign\<close> adds no check of its own: once the wallet has signed, it does what
  \<open>applySignature\<close> does.
\<close>

theorem applySignature_any_new_signer:
  assumes "isBrowser w" and "sessionStorage w = Some s" and "now \<le> expiresAt s"
    and "status s = Pending" and "signerPkh \<notin> set (collectedSigners s)"
    and "signTx (partialTx s) = Inr newPartialTx"
  shows "\<exists>s'. applySignature now signerPkh newPartialTx w
                 = (Inr s', w\<lparr>sessionStorage := Some s'\<rparr>)
              \<and> coSign now now signerPkh signTx w
                 = (Inr s', w\<lparr>sessionStorage := Some s'\<rparr>)
              \<and> s' = s\<lparr> partialTx := newPartialTx,
                          collectedSigners := collectedSigners s @ [signerPkh],
                          status := status s' \<rparr>
              \<and> (status s' = Ready) = (threshold s \<le> int (length (collectedSigners s)) + 1)
              \<and> (status s' = Pending) = (int (length (collectedSigners s)) + 1 < threshold s)"
  using assms
  by (simp add: applySignature_def coSign_def getSession_def readSession_live
      writeSession_def Let_def)

theorem applySignature_any_new_signer_witness:
  "isBrowser tabA \<and> sessionStorage tabA = Some sessA \<and> 1000 \<le> expiresAt sessA
     \<and> status sessA = Pending \<and> ''D'' \<notin> set (collectedSigners sessA)
     \<and> (\<lambda>tx. Inr (tx @ ''+D'')) (partialTx sessA) = (Inr ''tx+A+D'' :: error + string)
     \<and> (\<exists>s'. applySignature 1000 ''D'' ''tx+A+D'' tabA
                 = (Inr s', tabA\<lparr>sessionStorage := Some s'\<rparr>)
              \<and> coSign 1000 1000 ''D'' (\<lambda>tx. Inr (tx @ ''+D'')) tabA
                 = (Inr s', tabA\<lparr>sessionStorage := Some s'\<rparr>)
              \<and> s' = sessA\<lparr> partialTx := ''tx+A+D'',
                              collectedSigners := collectedSigners sessA @ [''D''],
                              status := status s' \<rparr>
              \<and> (status s' = Ready) = (threshold sessA \<le> int (length (collectedSigners sessA)) + 1)
              \<and> (status s' = Pending) = (int (length (collectedSigners sessA)) + 1 < threshold sessA))"
  using applySignature_any_new_signer
    [of tabA sessA 1000 "''D''" "\<lambda>tx. Inr (tx @ ''+D'')" "''tx+A+D''"]
  by (simp add: tabA_def sessA_def)

text \<open>
  C2 (the code at the failing input). \<open>createSession\<close> writes \<open>status: "pending"\<close> whatever
  the threshold. With threshold 1 the session of the initiator alone is stored as pending,
  and \<open>submitUnlock\<close>, which demands \<open>ready\<close>, refuses it with "Not enough signatures: 1/1".
\<close>

theorem createSession_threshold_one_is_pending:
  "status (fst (createSession 0 ''s1'' ''tx'' ''tx+A'' 1 ''A'' tab0)) = Pending \<and>
   fst (submitUnlock 1000 2000 (\<lambda>tx. Inr ''h'')
          (snd (createSession 0 ''s1'' ''tx'' ''tx+A'' 1 ''A'' tab0)))
     = Inl (NotEnoughSignatures 1 1)"
  by (simp add: createSession_def submitUnlock_def getSession_def readSession_def
      isExpired_def writeSession_def tab0_def SESSION_TTL_MS_def Let_def)

text \<open>
  C3 (as stated, refuted). The session record has no version field, and no quantity kept in
  the session can play its part: \<open>markSubmitted\<close> is accepted on the submitted session of
  the scenario and leaves the stored session exactly as it was.
\<close>

theorem markSubmitted_again_same_session:
  "markSubmitted 1000 ''h'' tabAB = (Inr (), tabS) \<and>
   fst (markSubmitted 2000 ''h'' tabS) = Inr () \<and>
   sessionStorage (snd (markSubmitted 2000 ''h'' tabS)) = sessionStorage tabS"
  by (simp add: markSubmitted_def readSession_def isExpired_def writeSession_def tabAB_def
      sessAB_def tabS_def Let_def)

text \<open>
  C3 (amended). A session carries no version counter. What grows is the number of collected
  signers: it is 1 at creation, every accepted \<open>applySignature\<close> increases it by exactly 1
  (and stores the session it returns), and \<open>markSubmitted\<close> leaves it unchanged.
\<close>

theorem collectedSigners_count_progress:
  "length (collectedSigners (fst (createSession now uuid u p t i w))) = 1 \<and>
   (\<forall>s s' w'. fst (readSession now w) = Some s
        \<and> applySignature now signerPkh newPartialTx w = (Inr s', w')
      \<longrightarrow> length (collectedSigners s') = length (collectedSigners s) + 1
          \<and> sessionStorage w' = Some s') \<and>
   (\<forall>s. fst (readSession now w) = Some s
      \<longrightarrow> (\<exists>s'. sessionStorage (snd (markSubmitted now h w)) = Some s'
                \<and> collectedSigners s' = collectedSigners s))"
proof (intro conjI allI impI)
  show "length (collectedSigners (fst (createSession now uuid u p t i w))) = 1"
    by (simp add: createSession_def Let_def)
next
  fix s s' w'
  assume a: "fst (readSession now w) = Some s
               \<and> applySignature now signerPkh newPartialTx w = (Inr s', w')"
  then have r: "readSession now w = (Some s, w)"
    using readSession_Some [of now w s "snd (readSession now w)"]
    by (metis prod.collapse)
  from a have "applySignature now signerPkh newPartialTx w = (Inr s', w')" by simp
  with r readSession_Some [OF r]
  show "length (collectedSigners s') = length (collectedSigners s) + 1"
    and "sessionStorage w' = Some s'"
    by (auto simp: applySignature_def writeSession_def Let_def split: if_splits)
next
  fix s
  assume "fst (readSession now w) = Some s"
  then have r: "readSession now w = (Some s, w)"
    using readSession_Some [of now w s "snd (readSession now w)"]
    by (metis prod.collapse)
  with readSession_Some [OF r]
  show "\<exists>s'. sessionStorage (snd (markSubmitted now h w)) = Some s'
              \<and> collectedSigners s' = collectedSigners s"
    by (simp add: markSubmitted_def writeSession_def Let_def)
qed

theorem collectedSigners_count_progress_witness:
  "fst (readSession 1000 tabA) = Some sessA
   \<and> applySignature 1000 ''B'' ''tx+A+B'' tabA = (Inr sessAB, tabAB)
   \<and> length (collectedSigners sessAB) = length (collectedSigners sessA) + 1
   \<and> sessionStorage tabAB = Some sessAB
   \<and> (\<exists>s'. sessionStorage (snd (markSubmitted 1000 ''h'' tabA)) = Some s'
             \<and> collectedSigners s' = collectedSigners sessA)"
proof -
  have r: "fst (readSession 1000 tabA) = Some sessA"
    by (simp add: readSession_def isExpired_def tabA_def sessA_def)
  note t = collectedSigners_count_progress
    [where now = 1000 and w = tabA and signerPkh = "''B''" and newPartialTx = "''tx+A+B''"
       and h = "''h''"]
  note a = t [THEN conjunct2, THEN conjunct1, rule_format, OF conjI [OF r scenario_cosign]]
  note m = t [THEN conjunct2, THEN conjunct2, rule_format, OF r]
  show ?thesis
    using r scenario_cosign a m by (intro conjI) simp_all
qed

text \<open>
  C4 (as stated, refuted). The local tab holds the session with the signature of \<open>A\<close> only;
  the payload exported elsewhere carries the same \<open>sessionId\<close> and the signatures of \<open>A\<close> and
  \<open>B\<close>. The import does not adopt it: it returns the local session and writes nothing.
\<close>

theorem import_same_id_not_adopted:
  "exportSessionPayload 1500 tabAB = (Some (Encoded payloadAB), tabAB) \<and>
   length (collectedSigners sessA) < length (data_collectedSigners payloadAB) \<and>
   importSessionPayload 2000 (Encoded payloadAB) tabA = (Inr sessA, tabA)"
  by (simp add: scenario_export importSessionPayload_def readSession_def isExpired_def
      tabA_def sessA_def payloadAB_def Let_def)

text \<open>
  C4 (amended). For every import of an unexpired payload whose \<open>sessionId\<close> is that of the
  live local session, the import is a no-op that returns the local session unchanged,
  whatever progress the payload records (only the identifiers are compared). So such an
  import never decreases the local collected-signer count.
\<close>

theorem import_same_id_keeps_local:
  assumes "isBrowser w" and "sessionStorage w = Some e" and "now \<le> expiresAt e"
    and "sessionId e = data_sessionId d" and "now \<le> data_expiresAt d"
  shows "importSessionPayload now (Encoded d) w = (Inr e, w)"
  using assms by (simp add: importSessionPayload_def readSession_live Let_def)

theorem import_same_id_keeps_local_witness:
  "isBrowser tabAB \<and> sessionStorage tabAB = Some sessAB \<and> 2000 \<le> expiresAt sessAB
     \<and> sessionId sessAB = data_sessionId payloadAB \<and> 2000 \<le> data_expiresAt payloadAB
     \<and> importSessionPayload 2000 (Encoded payloadAB) tabAB = (Inr sessAB, tabAB)"
  using import_same_id_keeps_local [of tabAB sessAB 2000 payloadAB]
  by (simp add: tabAB_def sessAB_def payloadAB_def)

text \<open>
  C5 (as stated, refuted). Importing on a fresh tab the payload of a session that has
  reached its threshold stores it with status \<open>pending\<close>: the import does not recompute
  the status, and the stored session has two signers, threshold two and is not ready.
\<close>

theorem import_does_not_recompute_status:
  "importSessionPayload 2000 (Encoded payloadAB) tab0
     = (Inr sessImp, tab0\<lparr>sessionStorage := Some sessImp\<rparr>)
   \<and> status sessImp = Pending
   \<and> threshold sessImp \<le> int (length (collectedSigners sessImp))
   \<and> \<not> spec_ready_iff_threshold sessImp"
  by (simp add: importSessionPayload_def readSession_def writeSession_def tab0_def
      payloadAB_def sessImp_def spec_ready_iff_threshold_def Let_def)

text \<open>
  C5 (amended). For a session that is not submitted, \<open>status = ready\<close> if and only if the
  collected-signer count has reached the threshold: every accepted \<open>applySignature\<close>
  establishes this for the session it returns, and \<open>createSession\<close> establishes it when
  the threshold is above 1. \<open>importSessionPayload\<close> does not recompute the status: a payload
  it adopts is stored as \<open>pending\<close>, so that afterwards the equivalence holds exactly when
  the payload's count is below its threshold.
\<close>

theorem ready_iff_threshold_where_established:
  "(\<forall>s' w'. applySignature now signerPkh newPartialTx w = (Inr s', w')
       \<longrightarrow> status s' \<noteq> Submitted \<and> spec_ready_iff_threshold s') \<and>
   (1 < t \<longrightarrow> status (fst (createSession now uuid u p t i w)) \<noteq> Submitted
             \<and> spec_ready_iff_threshold (fst (createSession now uuid u p t i w))) \<and>
   (\<forall>s' w'. importSessionPayload now2 (Encoded d) w2 = (Inr s', w')
         \<and> (\<forall>e. fst (readSession now2 w2) = Some e \<longrightarrow> sessionId e \<noteq> data_sessionId d)
       \<longrightarrow> status s' = Pending
           \<and> spec_ready_iff_threshold s'
               = (int (length (data_collectedSigners d)) < data_threshold d))"
proof (intro conjI allI impI)
  fix s' w'
  assume "applySignature now signerPkh newPartialTx w = (Inr s', w')"
  then show "status s' \<noteq> Submitted" and "spec_ready_iff_threshold s'"
    by (auto simp: applySignature_def spec_ready_iff_threshold_def Let_def
        split: prod.splits option.splits if_splits)
next
  assume "1 < t"
  then show "status (fst (createSession now uuid u p t i w)) \<noteq> Submitted"
    and "spec_ready_iff_threshold (fst (createSession now uuid u p t i w))"
    by (simp_all add: createSession_def spec_ready_iff_threshold_def Let_def)
next
  fix s' w'
  assume a: "importSessionPayload now2 (Encoded d) w2 = (Inr s', w')
       \<and> (\<forall>e. fst (readSession now2 w2) = Some e \<longrightarrow> sessionId e \<noteq> data_sessionId d)"
  then have s': "s' = \<lparr> sessionId = data_sessionId d, unsignedTx = data_partialTx d,
                          partialTx = data_partialTx d,
                          collectedSigners = data_collectedSigners d,
                          threshold = data_threshold d, status = Pending,
                          createdAt = now2, expiresAt = data_expiresAt d, txHash = None \<rparr>"
    by (auto simp: importSessionPayload_def Let_def
        split: prod.splits option.splits if_splits)
  show "status s' = Pending"
    by (simp add: s')
  show "spec_ready_iff_threshold s'
          = (int (length (data_collectedSigners d)) < data_threshold d)"
    by (auto simp: s' spec_ready_iff_threshold_def)
qed

theorem ready_iff_threshold_where_established_witness:
  "applySignature 1000 ''B'' ''tx+A+B'' tabA = (Inr sessAB, tabAB)
   \<and> status sessAB \<noteq> Submitted \<and> spec_ready_iff_threshold sessAB
   \<and> (1::int) < 2
   \<and> spec_ready_iff_threshold (fst (createSession 1000 ''s2'' ''tx'' ''tx+A'' 2 ''A'' tabA))
   \<and> importSessionPayload 2000 (Encoded payloadAB) tab0
         = (Inr sessImp, tab0\<lparr>sessionStorage := Some sessImp\<rparr>)
   \<and> fst (readSession 2000 tab0) = None
   \<and> status sessImp = Pending
   \<and> spec_ready_iff_threshold sessImp
       = (int (length (data_collectedSigners payloadAB)) < data_threshold payloadAB)"
proof -
  have i: "importSessionPayload 2000 (Encoded payloadAB) tab0
             = (Inr sessImp, tab0\<lparr>sessionStorage := Some sessImp\<rparr>)"
    by (simp add: importSessionPayload_def readSession_def writeSession_def tab0_def
        payloadAB_def sessImp_def Let_def)
  have n: "fst (readSession 2000 tab0) = None"
    by (simp add: readSession_def tab0_def)
  then have r: "\<forall>e. fst (readSession 2000 tab0) = Some e
                  \<longrightarrow> sessionId e \<noteq> data_sessionId payloadAB"
    by simp
  have c: "(1::int) < 2" by simp
  note t = ready_iff_threshold_where_established
    [where now = 1000 and signerPkh = "''B''" and newPartialTx = "''tx+A+B''" and w = tabA
       and t = 2 and uuid = "''s2''" and u = "''tx''" and p = "''tx+A''" and i = "''A''"
       and ?now2.0 = 2000 and d = payloadAB and ?w2.0 = tab0]
  note a = t [THEN conjunct1, rule_format, OF scenario_cosign]
  note b = t [THEN conjunct2, THEN conjunct1, rule_format, OF c]
  note d = t [THEN conjunct2, THEN conjunct2, rule_format, OF conjI [OF i r]]
  show ?thesis
    using scenario_cosign a b c i n d by (intro conjI) simp_all
qed

text \<open>
  C6 (as stated, refuted). Past \<open>expiresAt\<close>, \<open>markSubmitted\<close> does not fail: it finds no
  session (the read removes the expired one) and returns without an error.
\<close>

theorem markSubmitted_expired_returns_silently:
  "isExpired 600001 sessAB \<and> markSubmitted 600001 ''h'' tabAB = (Inr (), tab0)"
  by (simp add: markSubmitted_def readSession_def isExpired_def clearSession_def tabAB_def
      sessAB_def tab0_def)

text \<open>
  C6 (amended). Once the clock has passed a stored session's \<open>expiresAt\<close>,
  \<open>applySignature\<close> fails with the error "No active session or session expired.",
  \<open>markSubmitted\<close> returns silently without marking anything, each of the two calls removes
  the session from the store, and a read after it, at any time, finds no session.
\<close>

theorem expired_session_operations:
  assumes "isBrowser w" and "sessionStorage w = Some s" and "expiresAt s < now"
  shows "applySignature now signerPkh newPartialTx w
           = (Inl NoActiveSession, w\<lparr>sessionStorage := None\<rparr>)
       \<and> markSubmitted now h w = (Inr (), w\<lparr>sessionStorage := None\<rparr>)
       \<and> getSession now2 (w\<lparr>sessionStorage := None\<rparr>) = (None, w\<lparr>sessionStorage := None\<rparr>)"
  using assms
  by (simp add: applySignature_def markSubmitted_def getSession_def readSession_expired)
     (simp add: readSession_def)

theorem expired_session_operations_witness:
  "isBrowser tabA \<and> sessionStorage tabA = Some sessA \<and> expiresAt sessA < 600001
   \<and> applySignature 600001 ''B'' ''tx+A+B'' tabA = (Inl NoActiveSession, tab0)
   \<and> markSubmitted 600001 ''h'' tabA = (Inr (), tab0)
   \<and> getSession 600002 tab0 = (None, tab0)"
  using expired_session_operations
    [of tabA sessA 600001 "''B''" "''tx+A+B''" "''h''" 600002]
  by (simp add: tabA_def sessA_def tab0_def)

text \<open>
  C8. While a live session is stored, \<open>initiateUnlock\<close> (the entry point that creates a
  session) fails with "A multisig session is already active. Clear it before starting a
  new one." and leaves the store as it was: the existing session is neither replaced nor
  removed, whatever the collaborators would have returned.
\<close>

theorem initiateUnlock_session_already_active:
  assumes "isBrowser w" and "sessionStorage w = Some s" and "now \<le> expiresAt s"
  shows "initiateUnlock now now' uuid prepared w = (Inl SessionAlreadyActive, w)"
  using assms by (simp add: initiateUnlock_def hasActiveSession_def readSession_live)

theorem initiateUnlock_session_already_active_witness:
  "isBrowser tabA \<and> sessionStorage tabA = Some sessA \<and> 1000 \<le> expiresAt sessA
   \<and> initiateUnlock 1000 5000 ''s2'' (Inr (''B'', ''tx2'', 2, ''tx2+B'')) tabA
       = (Inl SessionAlreadyActive, tabA)"
  using initiateUnlock_session_already_active
    [of tabA sessA 1000 5000 "''s2''" "Inr (''B'', ''tx2'', 2, ''tx2+B'')"]
  by (simp add: tabA_def sessA_def)

text \<open>
  C9 (as stated, refuted). With no live session, \<open>markSubmitted\<close> is not always a no-op:
  when the stored session has expired, the read inside \<open>markSubmitted\<close> removes it, so the
  store after the call is not the store before it.
\<close>

theorem markSubmitted_expired_purges_store:
  "fst (readSession 700000 tabA) = None
   \<and> sessionStorage tabA = Some sessA
   \<and> fst (markSubmitted 700000 ''h'' tabA) = Inr ()
   \<and> sessionStorage (snd (markSubmitted 700000 ''h'' tabA)) = None
   \<and> snd (markSubmitted 700000 ''h'' tabA) \<noteq> tabA"
  by (simp add: markSubmitted_def readSession_def isExpired_def clearSession_def tabA_def
      sessA_def)

text \<open>
  C9 (amended). \<open>markSubmitted\<close> never throws. When no live session exists, it marks
  nothing, writes nothing and schedules nothing, and leaves the world as a plain read at
  that instant leaves it: untouched when the store is empty or outside a browser, and with
  the session removed from the store when an expired one is still stored; no session is
  stored afterwards. When a live session exists, whatever its status and its number of
  signers, it stores that session with status \<open>submitted\<close> and the given hash, and schedules
  the clearing three seconds later. Only \<open>submitUnlock\<close> demands \<open>ready\<close>: on a live session
  that is not ready it fails with "Not enough signatures" and changes nothing.
\<close>

theorem markSubmitted_total:
  "fst (markSubmitted now h w) = Inr () \<and>
   (fst (readSession now w) = None
      \<longrightarrow> snd (markSubmitted now h w) = snd (readSession now w)
          \<and> fst (readSession now2 (snd (markSubmitted now h w))) = None
          \<and> timeouts (snd (markSubmitted now h w)) = timeouts w
          \<and> (sessionStorage w = None \<or> \<not> isBrowser w \<longrightarrow> snd (markSubmitted now h w) = w)) \<and>
   (\<forall>s. isBrowser w \<and> sessionStorage w = Some s \<and> expiresAt s < now
      \<longrightarrow> fst (readSession now w) = None
          \<and> snd (markSubmitted now h w) = w\<lparr>sessionStorage := None\<rparr>) \<and>
   (\<forall>s. fst (readSession now w) = Some s
      \<longrightarrow> snd (markSubmitted now h w)
            = w\<lparr> sessionStorage := Some (s\<lparr> status := Submitted, txHash := Some h \<rparr>),
                 timeouts := timeouts w @ [now + 3000] \<rparr>
          \<and> (status s \<noteq> Ready
               \<longrightarrow> submitUnlock now now' submitTx w
                     = (Inl (NotEnoughSignatures (length (collectedSigners s)) (threshold s)), w)))"
proof (intro conjI allI impI)
  show "fst (markSubmitted now h w) = Inr ()"
    by (simp add: markSubmitted_def Let_def split: prod.splits option.splits)
next
  assume n: "fst (readSession now w) = None"
  then obtain v where r: "readSession now w = (None, v)"
    by (cases "readSession now w") auto
  show m: "snd (markSubmitted now h w) = snd (readSession now w)"
    by (simp add: markSubmitted_def r)
  show "fst (readSession now2 (snd (markSubmitted now h w))) = None"
    using readSession_None_again [OF r, of now2] by (simp add: m r)
  show "timeouts (snd (markSubmitted now h w)) = timeouts w"
    by (simp add: m readSession_def clearSession_def split: option.splits)
next
  assume "fst (readSession now w) = None" and "sessionStorage w = None \<or> \<not> isBrowser w"
  then show "snd (markSubmitted now h w) = w"
    by (auto simp: markSubmitted_def readSession_def)
next
  fix s
  assume e: "isBrowser w \<and> sessionStorage w = Some s \<and> expiresAt s < now"
  then have r: "readSession now w = (None, w\<lparr>sessionStorage := None\<rparr>)"
    by (simp add: readSession_expired)
  show "fst (readSession now w) = None"
    by (simp add: r)
  show "snd (markSubmitted now h w) = w\<lparr>sessionStorage := None\<rparr>"
    by (simp add: markSubmitted_def r)
next
  fix s
  assume "fst (readSession now w) = Some s"
  then have r: "readSession now w = (Some s, w)"
    using readSession_Some [of now w s "snd (readSession now w)"]
    by (metis prod.collapse)
  with readSession_Some [OF r]
  show "snd (markSubmitted now h w)
          = w\<lparr> sessionStorage := Some (s\<lparr> status := Submitted, txHash := Some h \<rparr>),
               timeouts := timeouts w @ [now + 3000] \<rparr>"
    by (simp add: markSubmitted_def writeSession_def Let_def)
  assume "status s \<noteq> Ready"
  with r show "submitUnlock now now' submitTx w
                 = (Inl (NotEnoughSignatures (length (collectedSigners s)) (threshold s)), w)"
    by (simp add: submitUnlock_def getSession_def)
qed

theorem markSubmitted_total_witness:
  "fst (readSession 1000 tab0) = None
   \<and> fst (markSubmitted 1000 ''h'' tab0) = Inr ()
   \<and> snd (markSubmitted 1000 ''h'' tab0) = tab0
   \<and> isBrowser tabA \<and> sessionStorage tabA = Some sessA \<and> expiresAt sessA < 700000
   \<and> fst (readSession 700000 tabA) = None
   \<and> snd (markSubmitted 700000 ''h'' tabA) = tabA\<lparr>sessionStorage := None\<rparr>
   \<and> fst (readSession 1000 tabA) = Some sessA \<and> status sessA \<noteq> Ready
   \<and> snd (markSubmitted 1000 ''h'' tabA)
       = tabA\<lparr> sessionStorage := Some (sessA\<lparr> status := Submitted, txHash := Some ''h'' \<rparr>),
               timeouts := timeouts tabA @ [1000 + 3000] \<rparr>
   \<and> submitUnlock 1000 2000 (\<lambda>tx. Inr ''h'') tabA
       = (Inl (NotEnoughSignatures (length (collectedSigners sessA)) (threshold sessA)), tabA)"
proof -
  have r0: "fst (readSession 1000 tab0) = None"
    and e0: "sessionStorage tab0 = None \<or> \<not> isBrowser tab0"
    by (simp_all add: readSession_def tab0_def)
  have xA: "isBrowser tabA \<and> sessionStorage tabA = Some sessA \<and> expiresAt sessA < 700000"
    by (simp add: tabA_def sessA_def)
  have rA: "fst (readSession 1000 tabA) = Some sessA" and sA: "status sessA \<noteq> Ready"
    by (simp_all add: readSession_def isExpired_def tabA_def sessA_def)
  note t0 = markSubmitted_total [where now = 1000 and h = "''h''" and w = tab0]
  note tX = markSubmitted_total [where now = 700000 and h = "''h''" and w = tabA]
  note tA = markSubmitted_total
    [where now = 1000 and h = "''h''" and w = tabA and now' = 2000
       and submitTx = "\<lambda>tx. Inr ''h''"]
  note f0 = t0 [THEN conjunct1]
  note n0 = t0 [THEN conjunct2, THEN conjunct1, rule_format, OF r0]
  note m0 = n0 [THEN conjunct2, THEN conjunct2, THEN conjunct2, rule_format, OF e0]
  note pX = tX [THEN conjunct2, THEN conjunct2, THEN conjunct1, rule_format, OF xA]
  note lA = tA [THEN conjunct2, THEN conjunct2, THEN conjunct2, rule_format, OF rA]
  note mA = lA [THEN conjunct1]
  note uA = lA [THEN conjunct2, rule_format, OF sA]
  show ?thesis
    using r0 f0 m0 xA pX rA sA mA uA by (intro conjI) simp_all
qed

text \<open>
  C10. Export then import. A session is live on the exporting device; the receiving device
  has no live session and imports the exported string while the session has not expired.
  The import returns (and, in a browser, stores) a session with the exported session's
  \<open>sessionId\<close>, \<open>partialTx\<close>, \<open>collectedSigners\<close>, \<open>threshold\<close> and \<open>expiresAt\<close>, whose
  \<open>unsignedTx\<close> is that \<open>partialTx\<close>, whose \<open>createdAt\<close> is the import time and whose status
  is \<open>pending\<close>.
\<close>

theorem export_import_roundtrip:
  assumes "isBrowser w1" and "sessionStorage w1 = Some s" and "now1 \<le> expiresAt s"
    and "fst (readSession now2 w2) = None" and "now2 \<le> expiresAt s"
  shows "\<exists>p s'. exportSessionPayload now1 w1 = (Some p, w1)
           \<and> fst (importSessionPayload now2 p w2) = Inr s'
           \<and> s' = \<lparr> sessionId = sessionId s, unsignedTx = partialTx s,
                      partialTx = partialTx s, collectedSigners = collectedSigners s,
                      threshold = threshold s, status = Pending, createdAt = now2,
                      expiresAt = expiresAt s, txHash = None \<rparr>
           \<and> (isBrowser w2
                \<longrightarrow> sessionStorage (snd (importSessionPayload now2 p w2)) = Some s')"
proof -
  have e: "exportSessionPayload now1 w1
             = (Some (Encoded \<lparr> data_sessionId = sessionId s, data_partialTx = partialTx s,
                                data_collectedSigners = collectedSigners s,
                                data_threshold = threshold s,
                                data_expiresAt = expiresAt s \<rparr>), w1)"
    using assms(1-3) by (simp add: exportSessionPayload_def readSession_live)
  from assms(4) obtain v where r: "readSession now2 w2 = (None, v)"
    by (cases "readSession now2 w2") auto
  then have b: "isBrowser v = isBrowser w2"
    by (auto simp: readSession_def clearSession_def split: option.splits if_splits)
  show ?thesis
    using b assms(5)
    by (simp add: e r importSessionPayload_def writeSession_def Let_def)
qed

theorem export_import_roundtrip_witness:
  "isBrowser tabAB \<and> sessionStorage tabAB = Some sessAB \<and> 1500 \<le> expiresAt sessAB
   \<and> fst (readSession 2000 tab0) = None \<and> 2000 \<le> expiresAt sessAB
   \<and> (\<exists>p s'. exportSessionPayload 1500 tabAB = (Some p, tabAB)
           \<and> fst (importSessionPayload 2000 p tab0) = Inr s'
           \<and> s' = sessImp
           \<and> isBrowser tab0
           \<and> sessionStorage (snd (importSessionPayload 2000 p tab0)) = Some s')"
  using export_import_roundtrip [of tabAB sessAB 1500 2000 tab0]
  by (simp add: tabAB_def sessAB_def tab0_def sessImp_def readSession_def)

end
